theory Spec2Isabelle
  imports Complex_Main
begin

section \<open>Values, errors and string helpers\<close>

text \<open>
  The values stored in the dictionaries of \<^verbatim>\<open>parse_result.py\<close>: \<^verbatim>\<open>None\<close>, an
  integer, a float or a string. Python integers are unbounded (\<open>int\<close>). Python floats
  are modelled as exact real numbers: rounding, overflow to infinity and NaN are not
  part of the model.
\<close>

datatype pyval = PNone | PInt int | PFloat real | PStr string

datatype py_error = IndexError | ZeroDivisionError | SystemExit

type_synonym pydict = "string \<rightharpoonup> pyval"

definition py_bind :: "py_error + 'a \<Rightarrow> ('a \<Rightarrow> py_error + 'b) \<Rightarrow> py_error + 'b" where
  "py_bind m f = (case m of Inl e \<Rightarrow> Inl e | Inr x \<Rightarrow> f x)"

text \<open>\<^verbatim>\<open>xs[i]\<close> for a literal index \<open>i \<ge> 0\<close>: IndexError out of range.\<close>

definition idx :: "'a list \<Rightarrow> nat \<Rightarrow> py_error + 'a" where
  "idx xs i = (if i < length xs then Inr (xs ! i) else Inl IndexError)"

text \<open>\<^verbatim>\<open>s.startswith(p)\<close>, \<^verbatim>\<open>s.endswith(p)\<close> and \<^verbatim>\<open>sub in s\<close>.\<close>

definition startswith :: "string \<Rightarrow> string \<Rightarrow> bool" where
  "startswith s p = (take (length p) s = p)"

definition endswith :: "string \<Rightarrow> string \<Rightarrow> bool" where
  "endswith s p = (length p \<le> length s \<and> drop (length s - length p) s = p)"


text \<open>\<^verbatim>\<open>s.lower()\<close> on ASCII letters.\<close>

definition lower_char :: "char \<Rightarrow> char" where
  "lower_char c =
     (case map_of (zip ''ABCDEFGHIJKLMNOPQRSTUVWXYZ'' ''abcdefghijklmnopqrstuvwxyz'') c of
        Some d \<Rightarrow> d
      | None \<Rightarrow> c)"

definition lower :: "string \<Rightarrow> string" where
  "lower s = map lower_char s"

text \<open>\<^verbatim>\<open>s.split(sep)\<close> for a one-character separator: never the empty list.\<close>

fun split_str :: "string \<Rightarrow> char \<Rightarrow> string list" where
  "split_str [] sep = [[]]"
| "split_str (c # cs) sep =
     (if c = sep then [] # split_str cs sep
      else (case split_str cs sep of
              w # ws \<Rightarrow> (c # w) # ws
            | [] \<Rightarrow> [[c]]))"

text \<open>\<^verbatim>\<open>os.path.basename\<close> (POSIX): what follows the last slash.\<close>

definition basename :: "string \<Rightarrow> string" where
  "basename p = rev (takeWhile (\<lambda>c. c \<noteq> CHR ''/'') (rev p))"

text \<open>\<^verbatim>\<open>s.strip()\<close>: ASCII whitespace removed at both ends.\<close>

definition is_space :: "char \<Rightarrow> bool" where
  "is_space c = (c \<in> set [CHR '' '', CHR 0x09, CHR 0x0A, CHR 0x0B, CHR 0x0C, CHR 0x0D,
                            CHR 0x1C, CHR 0x1D, CHR 0x1E, CHR 0x1F])"

definition strip :: "string \<Rightarrow> string" where
  "strip s = rev (dropWhile is_space (rev (dropWhile is_space s)))"

section \<open>Python's number parsers\<close>

text \<open>
  The built-ins \<^verbatim>\<open>int(text)\<close> and \<^verbatim>\<open>float(text)\<close>, with \<open>None\<close> for ValueError.
  The model reads plain decimal literals: an optional sign and ASCII digits for
  \<^verbatim>\<open>int\<close>; an optional sign, digits and an optional fraction for \<^verbatim>\<open>float\<close>.
  Digit-group underscores, exponents and the literals \<^verbatim>\<open>inf\<close> and \<^verbatim>\<open>nan\<close> are outside
  the model (they read as ValueError here).
\<close>

definition is_digit :: "char \<Rightarrow> bool" where
  "is_digit c = (c \<in> set ''0123456789'')"

definition digit_val :: "char \<Rightarrow> nat" where
  "digit_val c = of_char c - 48"

definition digits_val :: "string \<Rightarrow> nat" where
  "digits_val ds = foldl (\<lambda>a c. 10 * a + digit_val c) 0 ds"

definition split_sign :: "string \<Rightarrow> bool \<times> string" where
  "split_sign t =
     (case t of
        [] \<Rightarrow> (False, [])
      | c # r \<Rightarrow> if c = CHR ''-'' then (True, r)
                 else if c = CHR ''+'' then (False, r)
                 else (False, t))"

definition py_int :: "string \<Rightarrow> int option" where
  "py_int t =
     (let (neg, ds) = split_sign t
      in if ds \<noteq> [] \<and> list_all is_digit ds
         then Some (if neg then - int (digits_val ds) else int (digits_val ds))
         else None)"

definition py_float :: "string \<Rightarrow> real option" where
  "py_float t =
     (let (neg, body) = split_sign t;
          ip = takeWhile is_digit body;
          rest = dropWhile is_digit body;
          sgn = (if neg then - 1 else 1)
      in if rest = [] then
           (if ip = [] then None else Some (sgn * real (digits_val ip)))
         else if hd rest = CHR ''.'' \<and> list_all is_digit (tl rest)
                 \<and> (ip \<noteq> [] \<or> tl rest \<noteq> []) then
           Some (sgn * (real (digits_val ip)
                        + real (digits_val (tl rest)) / 10 ^ length (tl rest)))
         else None)"

text \<open>\<^verbatim>\<open>int(x)\<close> of a float: truncation towards zero.\<close>

definition py_trunc :: "real \<Rightarrow> int" where
  "py_trunc x = (if 0 \<le> x then \<lfloor>x\<rfloor> else \<lceil>x\<rceil>)"

text \<open>The helpers \<^verbatim>\<open>safe_int\<close> and \<^verbatim>\<open>safe_float\<close> (lines 71-95).\<close>

definition safe_int :: "string option \<Rightarrow> int option" where
  "safe_int text =
     (case text of
        None \<Rightarrow> None
      | Some t0 \<Rightarrow>
          (let t = strip t0
           in if t = [] then None
              else (case py_int t of
                      Some n \<Rightarrow> Some n
                    | None \<Rightarrow>
                        (case py_float t of
                           Some x \<Rightarrow> Some (py_trunc x)
                         | None \<Rightarrow> None))))"


definition int_val :: "int option \<Rightarrow> pyval" where
  "int_val v = (case v of None \<Rightarrow> PNone | Some n \<Rightarrow> PInt n)"


section \<open>The experiment name parser\<close>

text \<open>
  \<^verbatim>\<open>re.match(pre + r"(\d+)", s)\<close>: the group of leading digits after the literal
  prefix, when there is at least one digit.
\<close>

definition re_match_digits :: "string \<Rightarrow> string \<Rightarrow> string option" where
  "re_match_digits pre s =
     (let g = takeWhile is_digit (drop (length pre) s)
      in if startswith s pre \<and> g \<noteq> [] then Some g else None)"

text \<open>Lines 118-122: the base name without a trailing \<^verbatim>\<open>.xml\<close>, and its tokens.\<close>

definition exp_base :: "string \<Rightarrow> string" where
  "exp_base filename =
     (let base = basename filename
      in if endswith (lower base) ''.xml'' then take (length base - 4) base else base)"

definition name_parts :: "string \<Rightarrow> string list" where
  "name_parts filename = split_str (exp_base filename) (CHR ''_'')"

text \<open>Lines 123-133: the dictionary every call starts from.\<close>

definition info0 :: "string \<Rightarrow> pydict" where
  "info0 base =
     [''exp_name'' \<mapsto> PStr base,
      ''category'' \<mapsto> PNone,
      ''cache_size'' \<mapsto> PNone,
      ''channels'' \<mapsto> PNone,
      ''chips_per_channel'' \<mapsto> PNone,
      ''io_queue_depth'' \<mapsto> PNone,
      ''block_size'' \<mapsto> PNone,
      ''access_pattern'' \<mapsto> PNone,
      ''tpcc_variant'' \<mapsto> PNone]"

text \<open>
  \<^verbatim>\<open>m = re.match(pre + r"(\d+)", tok); if m: info[key] = safe_int(m.group(1))\<close>
\<close>

definition set_digits :: "pydict \<Rightarrow> string \<Rightarrow> string \<Rightarrow> string \<Rightarrow> pydict" where
  "set_digits info key pre tok =
     (case re_match_digits pre tok of
        Some g \<Rightarrow> info(key \<mapsto> int_val (safe_int (Some g)))
      | None \<Rightarrow> info)"

text \<open>
  \<^verbatim>\<open>if len(parts) >= n: info["block_size"] = parts[i]; info["access_pattern"] = parts[j]\<close>
\<close>

definition set_block_access :: "pydict \<Rightarrow> string list \<Rightarrow> nat \<Rightarrow> nat \<Rightarrow> nat \<Rightarrow> py_error + pydict" where
  "set_block_access info parts n i j =
     (if n \<le> length parts then
        py_bind (idx parts i) (\<lambda>b.
        py_bind (idx parts j) (\<lambda>a.
        Inr (info(''block_size'' \<mapsto> PStr b, ''access_pattern'' \<mapsto> PStr a))))
      else Inr info)"

text \<open>
  \<^verbatim>\<open>if len(parts) >= n and parts[i].startswith("chip"): ...\<close> (lines 154-157 and
  186-189).
\<close>

definition set_chips :: "pydict \<Rightarrow> string list \<Rightarrow> nat \<Rightarrow> nat \<Rightarrow> py_error + pydict" where
  "set_chips info parts n i =
     (if n \<le> length parts then
        py_bind (idx parts i) (\<lambda>p.
        Inr (if startswith p ''chip'' then set_digits info ''chips_per_channel'' ''chip'' p
             else info))
      else Inr info)"

text \<open>Lines 141-146, the branch \<^verbatim>\<open>kind.startswith("cache")\<close>.\<close>

definition branch_cache :: "pydict \<Rightarrow> string list \<Rightarrow> string \<Rightarrow> py_error + pydict" where
  "branch_cache info parts kind =
     set_block_access
       (info(''category'' \<mapsto> PStr ''cache'', ''cache_size'' \<mapsto> PStr (drop (length ''cache'') kind)))
       parts 4 2 3"

text \<open>Lines 149-160, the branch \<^verbatim>\<open>kind.startswith("ch")\<close>.\<close>

definition branch_ch :: "pydict \<Rightarrow> string list \<Rightarrow> string \<Rightarrow> py_error + pydict" where
  "branch_ch info parts kind =
     py_bind
       (set_chips (set_digits (info(''category'' \<mapsto> PStr ''ch_chip'')) ''channels'' ''ch'' kind)
          parts 3 2)
       (\<lambda>info'. set_block_access info' parts 5 3 4)"

text \<open>Lines 163-170, the branch \<^verbatim>\<open>kind.startswith("ioqd")\<close>.\<close>

definition branch_ioqd :: "pydict \<Rightarrow> string list \<Rightarrow> string \<Rightarrow> py_error + pydict" where
  "branch_ioqd info parts kind =
     set_block_access
       (set_digits (info(''category'' \<mapsto> PStr ''ioqd'')) ''io_queue_depth'' ''ioqd'' kind)
       parts 4 2 3"

text \<open>Lines 173-194, the branch \<^verbatim>\<open>kind == "tpcc"\<close>.\<close>

definition branch_tpcc :: "pydict \<Rightarrow> string list \<Rightarrow> py_error + pydict" where
  "branch_tpcc info parts =
     (let info1 = info(''category'' \<mapsto> PStr ''tpcc'', ''access_pattern'' \<mapsto> PStr ''tpcc'')
      in if 3 \<le> length parts then
           py_bind (idx parts 2) (\<lambda>sub.
             if startswith sub ''cache'' then
               Inr (info1(''tpcc_variant'' \<mapsto> PStr ''cache'',
                          ''cache_size'' \<mapsto> PStr (drop (length ''cache'') sub)))
             else if startswith sub ''ch'' then
               set_chips
                 (set_digits (info1(''tpcc_variant'' \<mapsto> PStr ''ch_chip'')) ''channels'' ''ch'' sub)
                 parts 4 3
             else if startswith sub ''ioqd'' then
               Inr (set_digits (info1(''tpcc_variant'' \<mapsto> PStr ''ioqd''))
                      ''io_queue_depth'' ''ioqd'' sub)
             else Inr info1)
         else Inr info1)"

text \<open>\<^verbatim>\<open>parse_experiment_name\<close> (lines 106-196).\<close>

definition parse_experiment_name :: "string \<Rightarrow> py_error + pydict" where
  "parse_experiment_name filename =
     (let parts = name_parts filename;
          info = info0 (exp_base filename)
      in if length parts < 2 then Inr info
         else py_bind (idx parts 0) (\<lambda>p0.
           if p0 \<noteq> ''wl'' then Inr info
           else py_bind (idx parts 1) (\<lambda>kind.
             if startswith kind ''cache'' then branch_cache info parts kind
             else if startswith kind ''ch'' then branch_ch info parts kind
             else if startswith kind ''ioqd'' then branch_ioqd info parts kind
             else if kind = ''tpcc'' then branch_tpcc info parts
             else Inr info)))"

section \<open>The parsed result document\<close>









section \<open>The host extractor\<close>



section \<open>The FTL extractor\<close>






section \<open>The TSU extractor\<close>
















section \<open>The chip and energy extractor\<close>






section \<open>The record assembler\<close>





section \<open>Notions used by the statements\<close>


text \<open>A field is populated when it holds a value other than \<^verbatim>\<open>None\<close>.\<close>

definition populated :: "pydict \<Rightarrow> string \<Rightarrow> bool" where
  "populated info k = (case info k of Some v \<Rightarrow> v \<noteq> PNone | None \<Rightarrow> False)"

text \<open>
  The axis groups that are populated, each under the name of the category that selects
  it, and the axis a record selects: its category, or its variant for a tpcc record.
\<close>

definition axis_groups_populated :: "pydict \<Rightarrow> string list" where
  "axis_groups_populated info =
     (if populated info ''cache_size'' then [''cache''] else [])
     @ (if populated info ''channels'' \<or> populated info ''chips_per_channel''
        then [''ch_chip''] else [])
     @ (if populated info ''io_queue_depth'' then [''ioqd''] else [])"

definition selected_axis :: "pydict \<Rightarrow> pyval option" where
  "selected_axis info =
     (if info ''category'' = Some (PStr ''tpcc'') then info ''tpcc_variant''
      else info ''category'')"

text \<open>
  The token that selects the axis: position 1 after \<^verbatim>\<open>wl\<close>, or position 2 when
  position 1 is \<^verbatim>\<open>tpcc\<close>.
\<close>

definition selecting_token :: "string list \<Rightarrow> string option" where
  "selecting_token parts =
     (if 2 \<le> length parts \<and> parts ! 0 = ''wl'' then
        (if parts ! 1 = ''tpcc'' then (if 3 \<le> length parts then Some (parts ! 2) else None)
         else Some (parts ! 1))
      else None)"

text \<open>A field of a returned dictionary; \<open>None\<close> when the call raised or the key is missing.\<close>

definition result_field :: "py_error + pydict \<Rightarrow> string \<Rightarrow> pyval option" where
  "result_field r k = (case r of Inr d \<Rightarrow> d k | Inl e \<Rightarrow> None)"









subsection \<open>Documents for the examples\<close>








section \<open>The experiment name parser: lemmas\<close>











lemma digit_not_space: "is_digit c \<Longrightarrow> \<not> is_space c"
  by (auto simp: is_digit_def is_space_def)

lemma dropWhile_hd_id: "xs = [] \<or> \<not> P (hd xs) \<Longrightarrow> dropWhile P xs = xs"
  by (cases xs) auto

lemma strip_digits: "list_all is_digit ds \<Longrightarrow> strip ds = ds"
proof -
  assume a: "list_all is_digit ds"
  have 1: "dropWhile is_space ds = ds"
    using a by (intro dropWhile_hd_id) (cases ds, auto simp: digit_not_space)
  have 2: "dropWhile is_space (rev ds) = rev ds"
    using a by (intro dropWhile_hd_id) (cases ds rule: rev_cases, auto simp: digit_not_space)
  show ?thesis by (simp add: strip_def 1 2)
qed

lemma split_sign_digits: "ds \<noteq> [] \<Longrightarrow> list_all is_digit ds \<Longrightarrow> split_sign ds = (False, ds)"
  by (cases ds) (auto simp: split_sign_def is_digit_def)

lemma safe_int_digits:
  "ds \<noteq> [] \<Longrightarrow> list_all is_digit ds \<Longrightarrow> safe_int (Some ds) = Some (int (digits_val ds))"
  by (simp add: safe_int_def strip_digits py_int_def split_sign_digits)



lemma set_digits_other: "k \<noteq> key \<Longrightarrow> set_digits info key pre tok k = info k"
  by (simp add: set_digits_def split: option.splits)

lemma set_chips_other:
  "set_chips info parts n i = Inr info' \<Longrightarrow> k \<noteq> ''chips_per_channel'' \<Longrightarrow> info' k = info k"
  by (auto simp: set_chips_def py_bind_def idx_def set_digits_other split: if_splits)


lemma set_chips_total: "i < n \<Longrightarrow> \<exists>info'. set_chips info parts n i = Inr info'"
  by (simp add: set_chips_def py_bind_def idx_def)

lemma set_block_access_eq:
  assumes "i < n" "j < n"
  shows "set_block_access info parts n i j =
     Inr (if n \<le> length parts
          then info(''block_size'' \<mapsto> PStr (parts ! i), ''access_pattern'' \<mapsto> PStr (parts ! j))
          else info)"
  using assms by (simp add: set_block_access_def py_bind_def idx_def)

lemma ch_not_cache: "\<not> startswith (''ch'' @ ds) ''cache''"
  by (simp add: startswith_def)

lemma ch_startswith: "startswith (''ch'' @ ds) ''ch''"
  by (simp add: startswith_def)




lemma re_match_digits_Some:
  "re_match_digits pre s = Some g \<Longrightarrow> g \<noteq> [] \<and> list_all is_digit g"
  by (auto simp: re_match_digits_def Let_def list_all_iff split: if_splits dest: set_takeWhileD)

lemma set_digits_matched:
  "re_match_digits pre tok = Some g \<Longrightarrow>
   set_digits info key pre tok = info(key \<mapsto> PInt (int (digits_val g)))"
  using re_match_digits_Some [of pre tok g]
  by (simp add: set_digits_def safe_int_digits int_val_def)

lemma set_digits_unmatched:
  "re_match_digits pre tok = None \<Longrightarrow> set_digits info key pre tok = info"
  by (simp add: set_digits_def)

lemma set_digits_key:
  "set_digits info key pre tok key =
     (case re_match_digits pre tok of Some g \<Rightarrow> Some (PInt (int (digits_val g))) | None \<Rightarrow> info key)"
  by (cases "re_match_digits pre tok") (simp_all add: set_digits_matched set_digits_unmatched)

lemma groups_none:
  "info ''cache_size'' = Some PNone \<Longrightarrow> info ''channels'' = Some PNone \<Longrightarrow>
   info ''chips_per_channel'' = Some PNone \<Longrightarrow> info ''io_queue_depth'' = Some PNone \<Longrightarrow>
   axis_groups_populated info = []"
  by (simp add: axis_groups_populated_def populated_def)

lemma groups_cache:
  "info ''cache_size'' = Some (PStr s) \<Longrightarrow> info ''channels'' = Some PNone \<Longrightarrow>
   info ''chips_per_channel'' = Some PNone \<Longrightarrow> info ''io_queue_depth'' = Some PNone \<Longrightarrow>
   axis_groups_populated info = [''cache'']"
  by (simp add: axis_groups_populated_def populated_def)

lemma groups_ch:
  "info ''cache_size'' = Some PNone \<Longrightarrow> info ''io_queue_depth'' = Some PNone \<Longrightarrow>
   axis_groups_populated info = [] \<or> axis_groups_populated info = [''ch_chip'']"
  by (simp add: axis_groups_populated_def populated_def)

lemma groups_ch_one:
  "info ''cache_size'' = Some PNone \<Longrightarrow> info ''io_queue_depth'' = Some PNone \<Longrightarrow>
   info ''channels'' = Some (PInt n) \<Longrightarrow> axis_groups_populated info = [''ch_chip'']"
  by (simp add: axis_groups_populated_def populated_def)

lemma groups_ioqd:
  "info ''cache_size'' = Some PNone \<Longrightarrow> info ''channels'' = Some PNone \<Longrightarrow>
   info ''chips_per_channel'' = Some PNone \<Longrightarrow>
   axis_groups_populated info = [] \<or> axis_groups_populated info = [''ioqd'']"
  by (simp add: axis_groups_populated_def populated_def)

lemma groups_ioqd_one:
  "info ''cache_size'' = Some PNone \<Longrightarrow> info ''channels'' = Some PNone \<Longrightarrow>
   info ''chips_per_channel'' = Some PNone \<Longrightarrow> info ''io_queue_depth'' = Some (PInt n) \<Longrightarrow>
   axis_groups_populated info = [''ioqd'']"
  by (simp add: axis_groups_populated_def populated_def)

text \<open>The axis fields and the selector after the channel tokens have been read.\<close>

lemma ch_tokens_axis:
  assumes i0: "i0 ''cache_size'' = Some PNone" "i0 ''io_queue_depth'' = Some PNone"
      "i0 ''channels'' = Some PNone"
    and "i < n"
  shows "\<exists>info. set_chips (set_digits i0 ''channels'' ''ch'' tok) parts n i = Inr info
     \<and> info ''category'' = i0 ''category'' \<and> info ''tpcc_variant'' = i0 ''tpcc_variant''
     \<and> info ''block_size'' = i0 ''block_size'' \<and> info ''access_pattern'' = i0 ''access_pattern''
     \<and> info ''cache_size'' = Some PNone \<and> info ''io_queue_depth'' = Some PNone
     \<and> (re_match_digits ''ch'' tok \<noteq> None \<longrightarrow> (\<exists>n. info ''channels'' = Some (PInt n)))"
proof -
  let ?i1 = "set_digits i0 ''channels'' ''ch'' tok"
  obtain i2 where i2: "set_chips ?i1 parts n i = Inr i2"
    using set_chips_total [OF assms(4), of ?i1 parts] by auto
  have other: "i2 k = i0 k" if "k \<noteq> ''chips_per_channel''" "k \<noteq> ''channels''" for k
    using set_chips_other [OF i2 that(1)] set_digits_other [OF that(2)] by simp
  have ch: "i2 ''channels'' = ?i1 ''channels''"
    using set_chips_other [OF i2] by simp
  have "re_match_digits ''ch'' tok \<noteq> None \<longrightarrow> (\<exists>n. i2 ''channels'' = Some (PInt n))"
    by (auto simp: ch set_digits_key)
  then show ?thesis
    using i2 other i0 by simp
qed

lemma branch_cache_axis:
  "\<exists>info. branch_cache (info0 b) parts kind = Inr info
     \<and> axis_groups_populated info = [''cache''] \<and> selected_axis info = Some (PStr ''cache'')"
  unfolding branch_cache_def
  by (simp add: set_block_access_eq info0_def selected_axis_def axis_groups_populated_def populated_def)

lemma branch_ch_axis:
  "\<exists>info. branch_ch (info0 b) parts kind = Inr info
     \<and> selected_axis info = Some (PStr ''ch_chip'')
     \<and> (axis_groups_populated info = [] \<or> axis_groups_populated info = [''ch_chip''])
     \<and> (re_match_digits ''ch'' kind \<noteq> None \<longrightarrow> axis_groups_populated info = [''ch_chip''])"
proof -
  let ?i0 = "(info0 b)(''category'' \<mapsto> PStr ''ch_chip'')"
  obtain i2 where i2: "set_chips (set_digits ?i0 ''channels'' ''ch'' kind) parts 3 2 = Inr i2"
    and f: "i2 ''category'' = Some (PStr ''ch_chip'')" "i2 ''cache_size'' = Some PNone"
      "i2 ''io_queue_depth'' = Some PNone"
      "re_match_digits ''ch'' kind \<noteq> None \<longrightarrow> (\<exists>n. i2 ''channels'' = Some (PInt n))"
    using ch_tokens_axis [of ?i0 2 3 kind parts] by (auto simp: info0_def)
  let ?i3 = "if 5 \<le> length parts
     then i2(''block_size'' \<mapsto> PStr (parts ! 3), ''access_pattern'' \<mapsto> PStr (parts ! 4)) else i2"
  have b: "branch_ch (info0 b) parts kind = Inr ?i3"
    unfolding branch_ch_def i2 py_bind_def by (simp add: set_block_access_eq del: fun_upd_apply)
  have g: "?i3 ''category'' = Some (PStr ''ch_chip'')" "?i3 ''cache_size'' = Some PNone"
      "?i3 ''io_queue_depth'' = Some PNone" "?i3 ''channels'' = i2 ''channels''"
    using f by simp_all
  have s: "selected_axis ?i3 = Some (PStr ''ch_chip'')"
    unfolding selected_axis_def g by simp
  have one: "re_match_digits ''ch'' kind \<noteq> None \<longrightarrow> axis_groups_populated ?i3 = [''ch_chip'']"
    using f(4) g groups_ch_one [of ?i3] by metis
  show ?thesis
    using b s one groups_ch [OF g(2) g(3)] by blast
qed

lemma branch_ioqd_axis:
  "\<exists>info. branch_ioqd (info0 b) parts kind = Inr info
     \<and> selected_axis info = Some (PStr ''ioqd'')
     \<and> (axis_groups_populated info = [] \<or> axis_groups_populated info = [''ioqd''])
     \<and> (re_match_digits ''ioqd'' kind \<noteq> None \<longrightarrow> axis_groups_populated info = [''ioqd''])"
proof -
  let ?i0 = "(info0 b)(''category'' \<mapsto> PStr ''ioqd'')"
  let ?i1 = "set_digits ?i0 ''io_queue_depth'' ''ioqd'' kind"
  let ?i3 = "if 4 \<le> length parts
     then ?i1(''block_size'' \<mapsto> PStr (parts ! 2), ''access_pattern'' \<mapsto> PStr (parts ! 3)) else ?i1"
  have b: "branch_ioqd (info0 b) parts kind = Inr ?i3"
    unfolding branch_ioqd_def by (simp add: set_block_access_eq del: fun_upd_apply)
  have g: "?i3 ''category'' = Some (PStr ''ioqd'')" "?i3 ''cache_size'' = Some PNone"
      "?i3 ''channels'' = Some PNone" "?i3 ''chips_per_channel'' = Some PNone"
      "?i3 ''io_queue_depth'' = ?i1 ''io_queue_depth''"
    by (simp_all add: set_digits_other info0_def)
  have s: "selected_axis ?i3 = Some (PStr ''ioqd'')"
    unfolding selected_axis_def g by simp
  have one: "re_match_digits ''ioqd'' kind \<noteq> None \<longrightarrow> axis_groups_populated ?i3 = [''ioqd'']"
  proof
    assume "re_match_digits ''ioqd'' kind \<noteq> None"
    then obtain n where "?i3 ''io_queue_depth'' = Some (PInt n)"
      unfolding g(5) by (auto simp: set_digits_key)
    then show "axis_groups_populated ?i3 = [''ioqd'']"
      using groups_ioqd_one [OF g(2) g(3) g(4)] by blast
  qed
  show ?thesis
    using b s one groups_ioqd [OF g(2) g(3) g(4)] by blast
qed

lemma re_match_startswith: "re_match_digits pre s \<noteq> None \<Longrightarrow> startswith s pre"
  by (auto simp: re_match_digits_def Let_def split: if_splits)

lemma startswith_ch_ioqd: "startswith s ''ch'' \<Longrightarrow> \<not> startswith s ''ioqd''"
  by (cases s) (auto simp: startswith_def)

lemma branch_tpcc_axis:
  "\<exists>info. branch_tpcc (info0 b) parts = Inr info
     \<and> info ''category'' = Some (PStr ''tpcc'')
     \<and> (axis_groups_populated info = []
        \<or> (\<exists>g. axis_groups_populated info = [g] \<and> info ''tpcc_variant'' = Some (PStr g)))
     \<and> (info ''tpcc_variant'' = Some (PStr ''cache'') \<longrightarrow> axis_groups_populated info = [''cache''])
     \<and> (3 \<le> length parts \<and> (startswith (parts ! 2) ''cache''
            \<or> re_match_digits ''ch'' (parts ! 2) \<noteq> None
            \<or> re_match_digits ''ioqd'' (parts ! 2) \<noteq> None)
          \<longrightarrow> length (axis_groups_populated info) = 1)"
proof -
  let ?i1 = "(info0 b)(''category'' \<mapsto> PStr ''tpcc'', ''access_pattern'' \<mapsto> PStr ''tpcc'')"
  let ?sub = "parts ! 2"
  have n1: "axis_groups_populated ?i1 = []" "?i1 ''category'' = Some (PStr ''tpcc'')"
      "?i1 ''tpcc_variant'' = Some PNone"
    by (simp_all add: info0_def axis_groups_populated_def populated_def)
  consider (short) "\<not> 3 \<le> length parts"
    | (cache) "3 \<le> length parts" "startswith ?sub ''cache''"
    | (ch) "3 \<le> length parts" "\<not> startswith ?sub ''cache''" "startswith ?sub ''ch''"
    | (ioqd) "3 \<le> length parts" "\<not> startswith ?sub ''cache''" "\<not> startswith ?sub ''ch''"
        "startswith ?sub ''ioqd''"
    | (other) "3 \<le> length parts" "\<not> startswith ?sub ''cache''" "\<not> startswith ?sub ''ch''"
        "\<not> startswith ?sub ''ioqd''"
    by blast
  then show ?thesis
  proof cases
    case short
    then have "branch_tpcc (info0 b) parts = Inr ?i1"
      unfolding branch_tpcc_def Let_def by simp
    with n1 short show ?thesis by simp
  next
    case cache
    let ?i = "?i1(''tpcc_variant'' \<mapsto> PStr ''cache'',
                  ''cache_size'' \<mapsto> PStr (drop (length ''cache'') ?sub))"
    have b: "branch_tpcc (info0 b) parts = Inr ?i"
      unfolding branch_tpcc_def Let_def py_bind_def idx_def using cache
      by (simp del: fun_upd_apply)
    have g: "axis_groups_populated ?i = [''cache'']"
      by (simp add: info0_def axis_groups_populated_def populated_def)
    have "?i ''category'' = Some (PStr ''tpcc'')" "?i ''tpcc_variant'' = Some (PStr ''cache'')"
      by simp_all
    with b g show ?thesis by simp
  next
    case ch
    let ?i0 = "?i1(''tpcc_variant'' \<mapsto> PStr ''ch_chip'')"
    obtain i2 where i2: "set_chips (set_digits ?i0 ''channels'' ''ch'' ?sub) parts 4 3 = Inr i2"
      and f: "i2 ''category'' = Some (PStr ''tpcc'')" "i2 ''tpcc_variant'' = Some (PStr ''ch_chip'')"
        "i2 ''cache_size'' = Some PNone" "i2 ''io_queue_depth'' = Some PNone"
        "re_match_digits ''ch'' ?sub \<noteq> None \<longrightarrow> (\<exists>n. i2 ''channels'' = Some (PInt n))"
      using ch_tokens_axis [of ?i0 3 4 ?sub parts] by (auto simp: info0_def)
    have b: "branch_tpcc (info0 b) parts = Inr i2"
      unfolding branch_tpcc_def Let_def py_bind_def idx_def using ch i2
      by (simp del: fun_upd_apply)
    have no_ioqd: "re_match_digits ''ioqd'' ?sub = None"
      using re_match_startswith [of "''ioqd''" ?sub] startswith_ch_ioqd [OF ch(3)] by blast
    have one: "re_match_digits ''ch'' ?sub \<noteq> None \<longrightarrow> axis_groups_populated i2 = [''ch_chip'']"
      using f(5) groups_ch_one [OF f(3) f(4)] by blast
    have "axis_groups_populated i2 = [] \<or> axis_groups_populated i2 = [''ch_chip'']"
      by (rule groups_ch [OF f(3) f(4)])
    with b f one no_ioqd ch show ?thesis by auto
  next
    case ioqd
    let ?i = "set_digits (?i1(''tpcc_variant'' \<mapsto> PStr ''ioqd'')) ''io_queue_depth'' ''ioqd'' ?sub"
    have b: "branch_tpcc (info0 b) parts = Inr ?i"
      unfolding branch_tpcc_def Let_def py_bind_def idx_def using ioqd
      by (simp del: fun_upd_apply)
    have g: "?i ''category'' = Some (PStr ''tpcc'')" "?i ''tpcc_variant'' = Some (PStr ''ioqd'')"
        "?i ''cache_size'' = Some PNone" "?i ''channels'' = Some PNone"
        "?i ''chips_per_channel'' = Some PNone"
      by (simp_all add: set_digits_other info0_def)
    have no_ch: "re_match_digits ''ch'' ?sub = None"
      using re_match_startswith [of "''ch''" ?sub] ioqd(3) by blast
    have one: "re_match_digits ''ioqd'' ?sub \<noteq> None \<longrightarrow> axis_groups_populated ?i = [''ioqd'']"
    proof
      assume "re_match_digits ''ioqd'' ?sub \<noteq> None"
      then obtain n where "?i ''io_queue_depth'' = Some (PInt n)"
        by (auto simp: set_digits_key)
      then show "axis_groups_populated ?i = [''ioqd'']"
        using groups_ioqd_one [OF g(3) g(4) g(5)] by blast
    qed
    have "axis_groups_populated ?i = [] \<or> axis_groups_populated ?i = [''ioqd'']"
      by (rule groups_ioqd [OF g(3) g(4) g(5)])
    with b g one no_ch ioqd show ?thesis by auto
  next
    case other
    have b: "branch_tpcc (info0 b) parts = Inr ?i1"
      unfolding branch_tpcc_def Let_def py_bind_def idx_def using other
      by (simp del: fun_upd_apply)
    have "re_match_digits ''ch'' ?sub = None" "re_match_digits ''ioqd'' ?sub = None"
      using re_match_startswith [of "''ch''" ?sub] re_match_startswith [of "''ioqd''" ?sub] other
      by blast+
    with b n1 other show ?thesis by simp
  qed
qed

lemma parse_wl:
  assumes "2 \<le> length (name_parts f)" "name_parts f ! 0 = ''wl''"
  shows "parse_experiment_name f =
     (if startswith (name_parts f ! 1) ''cache''
        then branch_cache (info0 (exp_base f)) (name_parts f) (name_parts f ! 1)
      else if startswith (name_parts f ! 1) ''ch''
        then branch_ch (info0 (exp_base f)) (name_parts f) (name_parts f ! 1)
      else if startswith (name_parts f ! 1) ''ioqd''
        then branch_ioqd (info0 (exp_base f)) (name_parts f) (name_parts f ! 1)
      else if name_parts f ! 1 = ''tpcc'' then branch_tpcc (info0 (exp_base f)) (name_parts f)
      else Inr (info0 (exp_base f)))"
proof -
  have l: "idx (name_parts f) 0 = Inr (name_parts f ! 0)"
      "idx (name_parts f) 1 = Inr (name_parts f ! 1)"
    using assms(1) by (auto simp: idx_def)
  have n: "\<not> length (name_parts f) < 2" using assms(1) by simp
  show ?thesis
    unfolding parse_experiment_name_def Let_def l py_bind_def
    by (simp only: n assms(2) if_False sum.case simp_thms)
qed

lemma parse_not_wl:
  assumes "length (name_parts f) < 2 \<or> name_parts f ! 0 \<noteq> ''wl''"
  shows "parse_experiment_name f = Inr (info0 (exp_base f))"
  using assms unfolding parse_experiment_name_def Let_def py_bind_def idx_def
  by (auto simp del: fun_upd_apply)

text \<open>
  Claim C8, as the code has it. The parser always returns; at most one axis group is
  populated, and it is the one the record selects by its category (by its variant for
  a tpcc record), so every axis field outside it is \<^verbatim>\<open>None\<close>. Exactly one group is
  populated when the selected axis is \<^verbatim>\<open>cache\<close>, and whenever the selecting token
  starts with \<^verbatim>\<open>cache\<close> or has a digit right after its \<^verbatim>\<open>ch\<close> or \<^verbatim>\<open>ioqd\<close> prefix. A
  tpcc name without a variant token, or a \<^verbatim>\<open>ch\<close> or \<^verbatim>\<open>ioqd\<close> token without digits,
  may populate none.
\<close>

theorem axis_group_selected:
  "\<exists>info. parse_experiment_name f = Inr info
     \<and> (axis_groups_populated info = []
        \<or> (\<exists>g. axis_groups_populated info = [g] \<and> selected_axis info = Some (PStr g)))
     \<and> (selected_axis info = Some (PStr ''cache'') \<longrightarrow> axis_groups_populated info = [''cache''])
     \<and> (\<forall>tok. selecting_token (name_parts f) = Some tok
            \<and> (startswith tok ''cache'' \<or> re_match_digits ''ch'' tok \<noteq> None
               \<or> re_match_digits ''ioqd'' tok \<noteq> None)
          \<longrightarrow> length (axis_groups_populated info) = 1)"
proof -
  let ?parts = "name_parts f"
  let ?i0 = "info0 (exp_base f)"
  let ?kind = "?parts ! 1"
  have n0: "axis_groups_populated ?i0 = []" "selected_axis ?i0 = Some PNone"
    by (simp_all add: info0_def axis_groups_populated_def populated_def selected_axis_def)
  consider (none) "length ?parts < 2 \<or> ?parts ! 0 \<noteq> ''wl''"
    | (cache) "2 \<le> length ?parts" "?parts ! 0 = ''wl''" "startswith ?kind ''cache''"
    | (ch) "2 \<le> length ?parts" "?parts ! 0 = ''wl''" "\<not> startswith ?kind ''cache''"
        "startswith ?kind ''ch''"
    | (ioqd) "2 \<le> length ?parts" "?parts ! 0 = ''wl''" "\<not> startswith ?kind ''cache''"
        "\<not> startswith ?kind ''ch''" "startswith ?kind ''ioqd''"
    | (tpcc) "2 \<le> length ?parts" "?parts ! 0 = ''wl''" "\<not> startswith ?kind ''cache''"
        "\<not> startswith ?kind ''ch''" "\<not> startswith ?kind ''ioqd''" "?kind = ''tpcc''"
    | (other) "2 \<le> length ?parts" "?parts ! 0 = ''wl''" "\<not> startswith ?kind ''cache''"
        "\<not> startswith ?kind ''ch''" "\<not> startswith ?kind ''ioqd''" "?kind \<noteq> ''tpcc''"
    by linarith
  then show ?thesis
  proof cases
    case none
    then have p: "parse_experiment_name f = Inr ?i0"
      by (rule parse_not_wl)
    have "selecting_token ?parts = None"
      using none by (auto simp: selecting_token_def)
    with p n0 show ?thesis by simp
  next
    case cache
    then have p: "parse_experiment_name f = branch_cache ?i0 ?parts ?kind"
      by (simp add: parse_wl del: fun_upd_apply)
    show ?thesis
      unfolding p using branch_cache_axis [of "exp_base f" ?parts ?kind] by auto
  next
    case ch
    then have p: "parse_experiment_name f = branch_ch ?i0 ?parts ?kind"
      by (simp add: parse_wl del: fun_upd_apply)
    have t: "selecting_token ?parts = Some ?kind"
      using ch by (auto simp: selecting_token_def startswith_def)
    have no_ioqd: "re_match_digits ''ioqd'' ?kind = None"
      using re_match_startswith [of "''ioqd''" ?kind] startswith_ch_ioqd [OF ch(4)] by blast
    show ?thesis
      unfolding p t using branch_ch_axis [of "exp_base f" ?parts ?kind] ch(3) no_ioqd by auto
  next
    case ioqd
    then have p: "parse_experiment_name f = branch_ioqd ?i0 ?parts ?kind"
      by (simp add: parse_wl del: fun_upd_apply)
    have t: "selecting_token ?parts = Some ?kind"
      using ioqd by (auto simp: selecting_token_def startswith_def)
    have no_ch: "re_match_digits ''ch'' ?kind = None"
      using re_match_startswith [of "''ch''" ?kind] ioqd(4) by blast
    show ?thesis
      unfolding p t using branch_ioqd_axis [of "exp_base f" ?parts ?kind] ioqd(3) no_ch by auto
  next
    case tpcc
    then have p: "parse_experiment_name f = branch_tpcc ?i0 ?parts"
      by (simp add: parse_wl del: fun_upd_apply)
    have t: "selecting_token ?parts = (if 3 \<le> length ?parts then Some (?parts ! 2) else None)"
      using tpcc by (simp add: selecting_token_def)
    obtain info where i: "branch_tpcc ?i0 ?parts = Inr info"
      "info ''category'' = Some (PStr ''tpcc'')"
      "axis_groups_populated info = []
        \<or> (\<exists>g. axis_groups_populated info = [g] \<and> info ''tpcc_variant'' = Some (PStr g))"
      "info ''tpcc_variant'' = Some (PStr ''cache'') \<longrightarrow> axis_groups_populated info = [''cache'']"
      "3 \<le> length ?parts \<and> (startswith (?parts ! 2) ''cache''
            \<or> re_match_digits ''ch'' (?parts ! 2) \<noteq> None
            \<or> re_match_digits ''ioqd'' (?parts ! 2) \<noteq> None)
          \<longrightarrow> length (axis_groups_populated info) = 1"
      using branch_tpcc_axis [of "exp_base f" ?parts] by blast
    have s: "selected_axis info = info ''tpcc_variant''"
      by (simp add: selected_axis_def i(2))
    show ?thesis
      unfolding p t s [symmetric] using i s by (intro exI [of _ info]) (auto split: if_splits)
  next
    case other
    then have p: "parse_experiment_name f = Inr ?i0"
      by (simp add: parse_wl del: fun_upd_apply)
    have t: "selecting_token ?parts = Some ?kind"
      using other by (simp add: selecting_token_def)
    have "re_match_digits ''ch'' ?kind = None" "re_match_digits ''ioqd'' ?kind = None"
      using re_match_startswith [of "''ch''" ?kind] re_match_startswith [of "''ioqd''" ?kind] other
      by blast+
    with p t n0 other show ?thesis by simp
  qed
qed

text \<open>A cache name populates the cache group alone.\<close>

theorem axis_group_witness:
  "selecting_token (name_parts ''wl_cache128MB_4kb_randread_scenario_1.xml'') = Some ''cache128MB''
   \<and> startswith ''cache128MB'' ''cache''
   \<and> (\<exists>info. parse_experiment_name ''wl_cache128MB_4kb_randread_scenario_1.xml'' = Inr info
        \<and> selected_axis info = Some (PStr ''cache'')
        \<and> axis_groups_populated info = [''cache'']
        \<and> length (axis_groups_populated info) = 1)"
proof -
  let ?f = "''wl_cache128MB_4kb_randread_scenario_1.xml''"
  have t: "selecting_token (name_parts ?f) = Some ''cache128MB''" by code_simp
  have s: "startswith ''cache128MB'' ''cache''" by code_simp
  have c: "result_field (parse_experiment_name ?f) ''category'' = Some (PStr ''cache'')"
    by code_simp
  obtain info where i: "parse_experiment_name ?f = Inr info"
    "selected_axis info = Some (PStr ''cache'') \<longrightarrow> axis_groups_populated info = [''cache'']"
    "\<forall>tok. selecting_token (name_parts ?f) = Some tok
            \<and> (startswith tok ''cache'' \<or> re_match_digits ''ch'' tok \<noteq> None
               \<or> re_match_digits ''ioqd'' tok \<noteq> None)
          \<longrightarrow> length (axis_groups_populated info) = 1"
    using axis_group_selected [of ?f] by blast
  have "info ''category'' = Some (PStr ''cache'')"
    using c i(1) by (simp add: result_field_def)
  then have sel: "selected_axis info = Some (PStr ''cache'')"
    by (simp add: selected_axis_def)
  have "length (axis_groups_populated info) = 1"
    using i(3) t s by blast
  with t s i(1) i(2) sel show ?thesis by blast
qed

text \<open>
  Two names of a recognised category with no axis group populated: a tpcc name without
  a variant token, and an \<^verbatim>\<open>ioqd\<close> token without digits.
\<close>

theorem axis_group_counterexample:
  "result_field (parse_experiment_name ''wl_tpcc_scenario_1.xml'') ''category'' = Some (PStr ''tpcc'')
   \<and> result_field (parse_experiment_name ''wl_tpcc_scenario_1.xml'') ''tpcc_variant'' = Some PNone
   \<and> result_field (parse_experiment_name ''wl_tpcc_scenario_1.xml'') ''cache_size'' = Some PNone
   \<and> result_field (parse_experiment_name ''wl_tpcc_scenario_1.xml'') ''channels'' = Some PNone
   \<and> result_field (parse_experiment_name ''wl_tpcc_scenario_1.xml'') ''chips_per_channel'' = Some PNone
   \<and> result_field (parse_experiment_name ''wl_tpcc_scenario_1.xml'') ''io_queue_depth'' = Some PNone
   \<and> result_field (parse_experiment_name ''wl_ioqd_4kb_randwrite.xml'') ''category'' = Some (PStr ''ioqd'')
   \<and> result_field (parse_experiment_name ''wl_ioqd_4kb_randwrite.xml'') ''cache_size'' = Some PNone
   \<and> result_field (parse_experiment_name ''wl_ioqd_4kb_randwrite.xml'') ''channels'' = Some PNone
   \<and> result_field (parse_experiment_name ''wl_ioqd_4kb_randwrite.xml'') ''chips_per_channel'' = Some PNone
   \<and> result_field (parse_experiment_name ''wl_ioqd_4kb_randwrite.xml'') ''io_queue_depth'' = Some PNone"
  by code_simp

text \<open>
  Claim C1. A name with fewer than two tokens, or whose first token is not \<^verbatim>\<open>wl\<close>, or
  whose second token starts with none of \<^verbatim>\<open>cache\<close>, \<^verbatim>\<open>ch\<close>, \<^verbatim>\<open>ioqd\<close> and is not
  \<^verbatim>\<open>tpcc\<close>, gives a dictionary (no exception) whose category and seven other fields
  are all \<^verbatim>\<open>None\<close>. The code carries the category \<^verbatim>\<open>unknown\<close> of the specification
  as \<^verbatim>\<open>None\<close>.
\<close>

theorem unknown_name_all_null:
  assumes "length (name_parts f) < 2 \<or> name_parts f ! 0 \<noteq> ''wl''
     \<or> (\<not> startswith (name_parts f ! 1) ''cache'' \<and> \<not> startswith (name_parts f ! 1) ''ch''
        \<and> \<not> startswith (name_parts f ! 1) ''ioqd'' \<and> name_parts f ! 1 \<noteq> ''tpcc'')"
  shows "\<exists>info. parse_experiment_name f = Inr info
     \<and> info ''exp_name'' = Some (PStr (exp_base f))
     \<and> info ''category'' = Some PNone
     \<and> info ''cache_size'' = Some PNone
     \<and> info ''channels'' = Some PNone
     \<and> info ''chips_per_channel'' = Some PNone
     \<and> info ''io_queue_depth'' = Some PNone
     \<and> info ''block_size'' = Some PNone
     \<and> info ''access_pattern'' = Some PNone
     \<and> info ''tpcc_variant'' = Some PNone"
proof -
  have "parse_experiment_name f = Inr (info0 (exp_base f))"
  proof (cases "length (name_parts f) < 2 \<or> name_parts f ! 0 \<noteq> ''wl''")
    case True
    then show ?thesis by (rule parse_not_wl)
  next
    case False
    with assms show ?thesis by (simp add: parse_wl del: fun_upd_apply)
  qed
  then show ?thesis by (simp add: info0_def)
qed

text \<open>The unrecognised name \<^verbatim>\<open>random_file.xml\<close>.\<close>

theorem unknown_name_witness:
  "name_parts ''random_file.xml'' = [''random'', ''file'']
   \<and> (\<exists>info. parse_experiment_name ''random_file.xml'' = Inr info
     \<and> info ''exp_name'' = Some (PStr ''random_file'')
     \<and> info ''category'' = Some PNone
     \<and> info ''cache_size'' = Some PNone
     \<and> info ''channels'' = Some PNone
     \<and> info ''chips_per_channel'' = Some PNone
     \<and> info ''io_queue_depth'' = Some PNone
     \<and> info ''block_size'' = Some PNone
     \<and> info ''access_pattern'' = Some PNone
     \<and> info ''tpcc_variant'' = Some PNone)"
proof -
  have p: "name_parts ''random_file.xml'' = [''random'', ''file'']"
    by code_simp
  have b: "exp_base ''random_file.xml'' = ''random_file''"
    by code_simp
  show ?thesis
    using unknown_name_all_null [of "''random_file.xml''"] by (simp add: p b)
qed

section \<open>The FTL extractor: lemmas\<close>




















section \<open>The TSU extractor: lemmas\<close>


















section \<open>The chip and energy extractor: lemmas\<close>








section \<open>The record assembler: lemmas\<close>








end
